theory Spec2Isabelle
  imports Main "HOL-Library.Char_ord" "HOL-Library.List_Lexorder" "HOL-Library.Multiset"
begin

section \<open>Paths, JSON values and JavaScript objects\<close>

text \<open>
  The configuration generator works on POSIX paths, on the parsed \<^verbatim>\<open>package.json\<close> of
  every workspace package and on plain JavaScript objects. A JavaScript object is an
  association list in insertion order with unique keys: an assignment to an existing key
  replaces the value where it stands, an assignment to a new key appends it.
\<close>

type_synonym path = string

datatype json =
    JNull
  | JBool bool
  | JNum int
  | JStr string
  | JArr "json list"
  | JObj "(string \<times> json) list"

fun obj_set :: "(string \<times> 'a) list \<Rightarrow> string \<Rightarrow> 'a \<Rightarrow> (string \<times> 'a) list" where
  "obj_set [] k v = [(k, v)]"
| "obj_set ((k', v') # kvs) k v =
     (if k' = k then (k, v) # kvs else (k', v') # obj_set kvs k v)"

text \<open>
  \<^verbatim>\<open>sortKeys\<close> of the \<^verbatim>\<open>sort-keys\<close> package: a copy of the object whose keys are in the
  order of \<^verbatim>\<open>Array.prototype.sort\<close> without a comparator, that is the lexicographic order
  of the code units.
\<close>

definition sortKeys :: "(string \<times> 'a) list \<Rightarrow> (string \<times> 'a) list" where
  "sortKeys obj = sort_key fst obj"

text \<open>
  \<^verbatim>\<open>path.join\<close> of Node.js on POSIX, for two arguments: the non-empty arguments are joined
  with a slash and the result is normalised (empty and \<^verbatim>\<open>.\<close> segments dropped, \<^verbatim>\<open>..\<close>
  resolved against the segment before it, a trailing slash kept).
\<close>

fun split_path :: "string \<Rightarrow> string \<Rightarrow> string list" where
  "split_path seg [] = [rev seg]"
| "split_path seg (c # cs) =
     (if c = CHR ''/'' then rev seg # split_path [] cs else split_path (c # seg) cs)"

fun normalizeString :: "bool \<Rightarrow> string list \<Rightarrow> string list \<Rightarrow> string list" where
  "normalizeString allowAboveRoot res [] = rev res"
| "normalizeString allowAboveRoot res (s # ss) =
     (if s = [] \<or> s = ''.'' then normalizeString allowAboveRoot res ss
      else if s = ''..'' then
        (case res of
           r # rs \<Rightarrow>
             (if r = ''..'' then normalizeString allowAboveRoot (s # res) ss
              else normalizeString allowAboveRoot rs ss)
         | [] \<Rightarrow>
             (if allowAboveRoot then normalizeString allowAboveRoot [s] ss
              else normalizeString allowAboveRoot [] ss))
      else normalizeString allowAboveRoot (s # res) ss)"

fun join_segments :: "string list \<Rightarrow> string" where
  "join_segments [] = []"
| "join_segments [s] = s"
| "join_segments (s # t # ss) = s @ ''/'' @ join_segments (t # ss)"

definition path_normalize :: "path \<Rightarrow> path" where
  "path_normalize p =
     (if p = [] then ''.''
      else
        (let isAbsolute = (hd p = CHR ''/'');
             trailingSeparator = (last p = CHR ''/'');
             q = join_segments (normalizeString (\<not> isAbsolute) [] (split_path [] p))
         in if q = [] then (if isAbsolute then ''/'' else if trailingSeparator then ''./'' else ''.'')
            else (if isAbsolute then ''/'' else []) @ q @ (if trailingSeparator then ''/'' else [])))"

definition path_join :: "path \<Rightarrow> path \<Rightarrow> path" where
  "path_join a b =
     (if a = [] \<and> b = [] then ''.''
      else if a = [] then path_normalize b
      else if b = [] then path_normalize a
      else path_normalize (a @ ''/'' @ b))"

section \<open>Package metadata\<close>

text \<open>
  The fields of a \<^verbatim>\<open>package.json\<close> the script reads. An optional string field is an
  \<open>option\<close>; JavaScript tests such a field for truthiness, which fails for a missing
  field and for the empty string. The \<^verbatim>\<open>browser\<close> field is a string or an object whose
  values are strings or \<^verbatim>\<open>false\<close>. A workspace package (\<^verbatim>\<open>Package\<close> of the helpers) is a
  \<^verbatim>\<open>package.json\<close> with the directory it was read from.
\<close>

datatype browser_target = BTarget string | BFalse

datatype browser_field = BrowserPath string | BrowserMap "(string \<times> browser_target) list"

record package_json =
  pkg_name :: string
  pkg_main :: "string option"
  pkg_module :: "string option"
  pkg_types :: "string option"
  pkg_browser :: "browser_field option"
  pkg_exports :: "json option"
  pkg_dependencies :: "(string \<times> string) list option"
  pkg_peerDependencies :: "(string \<times> string) list option"
  pkg_sizeLimit :: "string option"

record package = package_json +
  pkg_location :: path

definition truthy :: "string option \<Rightarrow> bool" where
  "truthy s = (case s of None \<Rightarrow> False | Some x \<Rightarrow> x \<noteq> [])"

definition startsWith :: "string \<Rightarrow> string \<Rightarrow> bool" where
  "startsWith s p = (take (length p) s = p)"

text \<open>A template literal prints an undefined value as the word \<^verbatim>\<open>undefined\<close>.\<close>

definition template :: "string option \<Rightarrow> string" where
  "template s = (case s of None \<Rightarrow> ''undefined'' | Some x \<Rightarrow> x)"

text \<open>
  \<^verbatim>\<open>getBrowserPath\<close>: the \<^verbatim>\<open>browser\<close> field when it is a string, else the entry of the
  \<^verbatim>\<open>browser\<close> object for the module file, and the \<^verbatim>\<open>module\<close> field when neither is a
  string.
\<close>

definition getBrowserPath :: "'a package_json_scheme \<Rightarrow> string option" where
  "getBrowserPath pkg =
     (let browserPath =
            (case pkg_browser pkg of
               None \<Rightarrow> None
             | Some (BrowserPath s) \<Rightarrow> Some (BTarget s)
             | Some (BrowserMap m) \<Rightarrow> map_of m (''./'' @ template (pkg_module pkg)))
      in case browserPath of
           Some (BTarget s) \<Rightarrow> Some s
         | _ \<Rightarrow> pkg_module pkg)"

section \<open>The exports generator\<close>

text \<open>\<^verbatim>\<open>prefixRelativePath\<close>: the empty path stays, a path that starts with a dot stays,
  every other path gets the prefix \<^verbatim>\<open>./\<close>. The source also passes undefined through; the
  callers below apply the function under \<open>map_option\<close> for that case.\<close>

definition prefixRelativePath :: "string \<Rightarrow> string" where
  "prefixRelativePath s = (if s = [] then s else if startsWith s ''.'' then s else ''./'' @ s)"

text \<open>Modelled from the spec: \<^verbatim>\<open>omitUndefined\<close> is imported from the \<^verbatim>\<open>remirror\<close> package and
  is not among the sources; it returns the object without the keys whose value is
  undefined, so that such a condition is omitted from the entry.\<close>

definition omitUndefined :: "(string \<times> string option) list \<Rightarrow> (string \<times> json) list" where
  "omitUndefined field = concat (map (\<lambda>(k, v). case v of None \<Rightarrow> [] | Some s \<Rightarrow> [(k, JStr s)]) field)"

text \<open>
  \<^verbatim>\<open>augmentExportsObject(packageJson, filepath, json)\<close> adds the entry of one sub-package to
  the \<^verbatim>\<open>exports\<close> of \<^verbatim>\<open>packageJson\<close>. The source mutates \<^verbatim>\<open>packageJson.exports\<close>; the model
  returns the new value of that field. An \<^verbatim>\<open>exports\<close> value that is no plain object is
  replaced by a fresh object first; the test for a missing or string-valued \<^verbatim>\<open>exports\<close> that
  follows in the source can then no longer hold and has no counterpart here. \<open>exportField\<close>
  is the object \<^verbatim>\<open>field\<close> of the source, \<^verbatim>\<open>default\<close> included.
\<close>

definition exportField :: "'a package_json_scheme \<Rightarrow> string \<Rightarrow> 'b package_json_scheme \<Rightarrow> (string \<times> string option) list" where
  "exportField packageJson filepath json =
     (let browserPath = getBrowserPath packageJson;
          import = map_option prefixRelativePath
            (if truthy (pkg_module json) then Some (path_join filepath (the (pkg_module json))) else None);
          require = map_option prefixRelativePath
            (if truthy (pkg_main json) then Some (path_join filepath (the (pkg_main json))) else None);
          browser = map_option prefixRelativePath
            (if truthy browserPath then Some (path_join filepath (the browserPath)) else None);
          types = map_option prefixRelativePath
            (if truthy (pkg_types json) then Some (path_join filepath (the (pkg_types json))) else None)
      in [(''import'', import), (''require'', require), (''browser'', browser), (''types'', types),
          (''default'', import)])"

definition augmentExportsObject :: "'a package_json_scheme \<Rightarrow> string \<Rightarrow> 'b package_json_scheme \<Rightarrow> json" where
  "augmentExportsObject packageJson filepath0 json =
     (let filepath = (if filepath0 = [] then ''.'' else filepath0);
          field = exportField packageJson filepath json;
          exportsObject = (case pkg_exports packageJson of Some (JObj kvs) \<Rightarrow> kvs | _ \<Rightarrow> []);
          exportsObject = obj_set exportsObject filepath (JObj (omitUndefined field))
      in JObj
          (if filepath = ''.''
           then obj_set (obj_set exportsObject ''./package.json'' (JStr ''./package.json''))
                  ''./types/*'' (JStr ''./dist/declarations/src/*.d.ts'')
           else exportsObject))"

section \<open>The script's environment and state\<close>

text \<open>
  Everything the script reads from outside its own file is a field of the environment:
  the helpers imported from \<^verbatim>\<open>./helpers\<close>, the file system, the Node.js library and the
  runtime.
  \<^item> \<open>getAllDependencies\<close>: the workspace packages (the argument is \<^verbatim>\<open>excludeSupport\<close>),
    or the message of the error it throws;
  \<^item> \<open>subPackages\<close>: for a package, every \<^verbatim>\<open>package.json\<close> that \<^verbatim>\<open>globby\<close> finds under its
    location, as the directory of the file relative to the location
    (\<^verbatim>\<open>path.relative(location, path.dirname(subPackage))\<close>, empty for the package itself)
    and the content \<^verbatim>\<open>require\<close> reads;
  \<^item> \<open>stringify\<close>: \<^verbatim>\<open>JSON.stringify(value, null, 2)\<close>;
  \<^item> \<open>writeJSON_error\<close> and \<open>formatFiles_error\<close>: the message of the error a write to a
    path, or a run of the formatter, throws, if any;
  \<^item> \<open>getRelativePathFromJson\<close>, \<open>getTypedPackagesWithPath\<close>, \<open>baseDir\<close>: the helpers of
    these names; \<open>path_relative\<close>, \<open>path_dirname\<close>, \<open>cwd\<close>: \<^verbatim>\<open>path.relative\<close>,
    \<^verbatim>\<open>path.dirname\<close> and \<^verbatim>\<open>process.cwd()\<close>;
  \<^item> \<open>collate\<close>: the collation key of a string, so that \<^verbatim>\<open>a.localeCompare(b)\<close> compares
    \<open>collate a\<close> with \<open>collate b\<close>;
  \<^item> \<open>resolveTsConfigMeta\<close>: the \<^verbatim>\<open>tsconfig\<close> files of a package; the function reads the
    package, the table of typed packages and the listing of the package's directory, and
    writes nothing;
  \<^item> \<open>schedule\<close>: the order in which the runtime completes operations that were started
    together, given in the order in which the program started them;
  \<^item> \<open>interleave\<close>: the order in which the runtime completes the operations of two
    generators that run side by side, given the operations of each in its own order.
\<close>

datatype error = OutputMismatch | IOError string

datatype 'a result = Ok 'a | Throw error | Exit nat

datatype log_entry = ErrorMessage error | ErrorBanner | FatalError error

record size_limit_config =
  sl_name :: string
  sl_limit :: string
  sl_path :: path
  sl_ignore :: "string list"
  sl_running :: bool
  sl_gzip :: bool

record tsconfig_file =
  tc_filepath :: path
  tc_json :: json
  tc_shouldReference :: bool

datatype content =
    PackageJsonFile package_json
  | SizeLimitFile "size_limit_config list"
  | TsconfigFile json
  | RootTsconfigFile "path list"
  | MainTsconfigFile "path list"

text \<open>
  The asynchronous operations of the generators: a synchronous block that pushes onto the
  shared list \<^verbatim>\<open>references\<close>, a write of a file, a push onto \<^verbatim>\<open>filesToPrettify\<close> of file names
  joined by a blank, the write of the root \<^verbatim>\<open>tsconfig.json\<close> from the sorted \<^verbatim>\<open>references\<close>,
  and the rejection of a helper's promise.
\<close>

datatype operation =
    PushReferences "path list"
  | WriteFile path content
  | PushPrettify "path list"
  | WriteRootTsconfig
  | Reject string

record env =
  getAllDependencies :: "bool \<Rightarrow> string + package list"
  subPackages :: "package \<Rightarrow> (path \<times> package_json) list"
  stringify :: "json \<Rightarrow> string"
  writeJSON_error :: "path \<Rightarrow> string option"
  formatFiles_error :: "string \<Rightarrow> string option"
  getRelativePathFromJson :: "package \<Rightarrow> path"
  getTypedPackagesWithPath :: "string + (string \<times> path) list"
  baseDir :: "string list \<Rightarrow> path"
  path_relative :: "path \<Rightarrow> path \<Rightarrow> path"
  path_dirname :: "path \<Rightarrow> path"
  cwd :: path
  collate :: "string \<Rightarrow> string"
  resolveTsConfigMeta :: "package \<Rightarrow> (string \<times> path) list \<Rightarrow> tsconfig_file list"
  schedule :: "operation list \<Rightarrow> operation list"
  interleave :: "operation list \<Rightarrow> operation list \<Rightarrow> operation list"

record cli_args =
  cli_size :: bool
  cli_tsExperimentalReferences :: bool
  cli_tsPackages :: bool
  cli_exports :: bool
  cli_check :: bool
  cli_force :: bool

text \<open>
  The state the script changes: the files \<^verbatim>\<open>writeJSON\<close> has written, in the order of the
  writes, the module-level list \<^verbatim>\<open>filesToPrettify\<close>, the errors given to \<^verbatim>\<open>log.error\<close> and
  \<^verbatim>\<open>log.fatal\<close>, and the arguments of the calls of \<^verbatim>\<open>formatFiles\<close>. The field \<open>raised\<close> keeps
  every error in the order in which it was thrown; the script has no such list, it is
  the record of the run against which the handling of errors is stated. A function of
  the script returns normally, throws, or ends the process with \<^verbatim>\<open>process.exit\<close>.
\<close>

record world =
  written :: "(path \<times> content) list"
  filesToPrettify :: "string list"
  logged :: "log_entry list"
  formatted :: "string list"
  raised :: "error list"

definition paths_sizeLimit :: "env \<Rightarrow> path" where
  "paths_sizeLimit env = baseDir env [''support'', ''root'', ''.size-limit.json'']"

definition paths_mainTsconfig :: "env \<Rightarrow> path" where
  "paths_mainTsconfig env = baseDir env [''tsconfig.json'']"

definition paths_rootTsconfig :: "env \<Rightarrow> path" where
  "paths_rootTsconfig env = baseDir env [''support'', ''root'', ''tsconfig.json'']"

definition throw :: "error \<Rightarrow> world \<Rightarrow> unit result \<times> world" where
  "throw e w = (Throw e, w\<lparr>raised := raised w @ [e]\<rparr>)"

definition writeJSON :: "env \<Rightarrow> path \<Rightarrow> content \<Rightarrow> world \<Rightarrow> unit result \<times> world" where
  "writeJSON env p c w =
     (case writeJSON_error env p of
        Some m \<Rightarrow> throw (IOError m) w
      | None \<Rightarrow> (Ok (), w\<lparr>written := written w @ [(p, c)]\<rparr>))"

definition formatFiles :: "env \<Rightarrow> string \<Rightarrow> world \<Rightarrow> unit result \<times> world" where
  "formatFiles env files w =
     (case formatFiles_error env files of
        Some m \<Rightarrow> throw (IOError m) w
      | None \<Rightarrow> (Ok (), w\<lparr>formatted := formatted w @ [files]\<rparr>))"

fun joinWith :: "string \<Rightarrow> string list \<Rightarrow> string" where
  "joinWith sep [] = []"
| "joinWith sep [s] = s"
| "joinWith sep (s # t # ss) = s @ sep @ joinWith sep (t # ss)"

text \<open>
  Operations complete one after the other in the order the runtime gives them. The
  first operation that fails rejects the \<^verbatim>\<open>Promise.all\<close> that waits for it; the rejection
  escapes \<^verbatim>\<open>main\<close>, whose handler ends the process, so the operations after it in the order
  of completion are never completed. The state of a run of operations holds the shared
  \<^verbatim>\<open>references\<close>, the error of the rejection once there is one, and the state of the
  script.
\<close>

fun applyOperation ::
  "env \<Rightarrow> operation \<Rightarrow> path list \<times> error option \<times> world \<Rightarrow> path list \<times> error option \<times> world" where
  "applyOperation env operation (references, Some e, w) = (references, Some e, w)"
| "applyOperation env (PushReferences ps) (references, None, w) = (references @ ps, None, w)"
| "applyOperation env (WriteFile p c) (references, None, w) =
     (case writeJSON env p c w of
        (Throw e, w1) \<Rightarrow> (references, Some e, w1)
      | (r, w1) \<Rightarrow> (references, None, w1))"
| "applyOperation env (PushPrettify ps) (references, None, w) =
     (references, None, w\<lparr>filesToPrettify := filesToPrettify w @ [joinWith '' '' ps]\<rparr>)"
| "applyOperation env WriteRootTsconfig (references, None, w) =
     (case writeJSON env (paths_rootTsconfig env)
             (RootTsconfigFile (sort_key (collate env) references)) w of
        (Throw e, w1) \<Rightarrow> (references, Some e, w1)
      | (r, w1) \<Rightarrow> (references, None, w1))"
| "applyOperation env (Reject m) (references, None, w) =
     (references, Some (IOError m), w\<lparr>raised := raised w @ [IOError m]\<rparr>)"

definition runOperations :: "env \<Rightarrow> operation list \<Rightarrow> world \<Rightarrow> unit result \<times> world" where
  "runOperations env operations w =
     (case fold (applyOperation env) operations ([], None, w) of
        (references, Some e, w1) \<Rightarrow> (Throw e, w1)
      | (references, None, w1) \<Rightarrow> (Ok (), w1))"

subsection \<open>generateExports\<close>

text \<open>
  The body of the loop over the sub-packages of one package, followed by \<^verbatim>\<open>sortKeys\<close>:
  the \<^verbatim>\<open>exports\<close> field is reset to an empty object, every sub-package adds its entry,
  and the keys are sorted.
\<close>

definition packageExports :: "env \<Rightarrow> package \<Rightarrow> (string \<times> json) list" where
  "packageExports env pkg =
     (let packageJson = (package_json.truncate pkg)\<lparr>pkg_exports := Some (JObj [])\<rparr>;
          packageJson =
            fold (\<lambda>(relativeDir, subPackageJson) pj.
                    pj\<lparr>pkg_exports :=
                         Some (augmentExportsObject pj (prefixRelativePath relativeDir) subPackageJson)\<rparr>)
                 (subPackages env pkg) packageJson
      in case pkg_exports packageJson of Some (JObj exportsObject) \<Rightarrow> sortKeys exportsObject | _ \<Rightarrow> [])"

text \<open>
  One round of the loop over the packages. The accumulator holds \<^verbatim>\<open>actual\<close> (the stored
  \<^verbatim>\<open>exports\<close> of each package by name, pretty-printed, or the empty string when the
  package has none: \<open>storedExports\<close>), \<^verbatim>\<open>expected\<close> (the generated ones) and \<^verbatim>\<open>files\<close>.
  Both records are keyed by the name of the package, so a package replaces the entries of
  an earlier package of the same name.
\<close>

definition storedExports :: "env \<Rightarrow> package \<Rightarrow> string" where
  "storedExports env pkg =
     (case pkg_exports pkg of None \<Rightarrow> [] | Some stored \<Rightarrow> stringify env stored)"

definition exportsStep ::
  "env \<Rightarrow> package \<Rightarrow>
   (string \<times> string) list \<times> (string \<times> string) list \<times> (path \<times> package_json) list \<Rightarrow>
   (string \<times> string) list \<times> (string \<times> string) list \<times> (path \<times> package_json) list" where
  "exportsStep env pkg acc =
     (case acc of
        (actual, expected, files) \<Rightarrow>
          if \<not> truthy (pkg_main pkg) then acc
          else
            (let generated = JObj (packageExports env pkg);
                 packageJson = (package_json.truncate pkg)\<lparr>pkg_exports := Some generated\<rparr>
             in (obj_set actual (pkg_name pkg) (storedExports env pkg),
                 obj_set expected (pkg_name pkg) (stringify env generated),
                 files @ [(path_join (pkg_location pkg) ''package.json'', packageJson)])))"

text \<open>
  Modelled from the spec: \<^verbatim>\<open>compareOutput\<close> is a helper of \<^verbatim>\<open>./helpers\<close> and is not among the
  sources. It tests the generated output against the stored one for equality and throws
  when they differ.
\<close>

definition compareOutput :: "(string \<times> string) list \<Rightarrow> (string \<times> string) list \<Rightarrow> error option" where
  "compareOutput actual expected = (if actual = expected then None else Some OutputMismatch)"

text \<open>
  \<^verbatim>\<open>generateExports\<close>. The error of \<^verbatim>\<open>compareOutput\<close> is caught and logged. The last
  statement starts the writes of all files together, each after the push of its name
  onto \<^verbatim>\<open>filesToPrettify\<close>, and waits for them with \<^verbatim>\<open>Promise.all\<close>.
\<close>

definition generateExports :: "env \<Rightarrow> cli_args \<Rightarrow> world \<Rightarrow> unit result \<times> world" where
  "generateExports env args w =
     (case getAllDependencies env True of
        Inl m \<Rightarrow> throw (IOError m) w
      | Inr packages \<Rightarrow>
          (case fold (exportsStep env) packages ([], [], []) of
             (actual, expected, files) \<Rightarrow>
               (let error = compareOutput actual expected;
                    w1 = (case error of
                            None \<Rightarrow> w
                          | Some e \<Rightarrow> w\<lparr>logged := logged w @ [ErrorMessage e],
                                        raised := raised w @ [e]\<rparr>)
                in if error = None \<and> \<not> cli_force args then (Ok (), w1)
                   else if cli_check args \<and> error \<noteq> None then (Exit 1, w1)
                   else if cli_check args then (Ok (), w1)
                   else runOperations env
                          (schedule env (map (\<lambda>(p, j). WriteFile p (PackageJsonFile j)) files))
                          (w1\<lparr>filesToPrettify := filesToPrettify w1 @
                                 map (\<lambda>(p, j). path_relative env (cwd env) p) files\<rparr>))))"

subsection \<open>generateSizeLimitConfig\<close>

definition sizeLimitIgnore :: "package \<Rightarrow> string list" where
  "sizeLimitIgnore pkg =
     map fst (case pkg_peerDependencies pkg of None \<Rightarrow> [] | Some ds \<Rightarrow> ds) @
     filter (\<lambda>name. startsWith name ''@remirror/'')
       (map fst (case pkg_dependencies pkg of None \<Rightarrow> [] | Some ds \<Rightarrow> ds))"

text \<open>
  The loop over the packages: a package without a size limit and a package without an
  entry file are passed over; every other package adds one entry to \<^verbatim>\<open>sizes\<close>.
\<close>

fun sizeLimitLoop :: "env \<Rightarrow> package list \<Rightarrow> size_limit_config list \<Rightarrow> size_limit_config list" where
  "sizeLimitLoop env [] sizes = sizes"
| "sizeLimitLoop env (pkg # pkgs) sizes =
     (let limit = pkg_sizeLimit pkg in
      if \<not> truthy limit then sizeLimitLoop env pkgs sizes
      else
        (let pathToEntryFile = getBrowserPath pkg in
         if \<not> truthy pathToEntryFile then sizeLimitLoop env pkgs sizes
         else
           (let pathToPackage = getRelativePathFromJson env pkg;
                ignore = sizeLimitIgnore pkg
            in sizeLimitLoop env pkgs
                 (sizes @
                  [\<lparr>sl_name = pkg_name pkg, sl_limit = the limit,
                    sl_path = path_join pathToPackage (the pathToEntryFile),
                    sl_ignore = ignore, sl_running = False, sl_gzip = True\<rparr>]))))"

definition generateSizeLimitConfig :: "env \<Rightarrow> world \<Rightarrow> unit result \<times> world" where
  "generateSizeLimitConfig env w =
     (case getAllDependencies env False of
        Inl m \<Rightarrow> throw (IOError m) w
      | Inr packages \<Rightarrow>
          (case writeJSON env (paths_sizeLimit env) (SizeLimitFile (sizeLimitLoop env packages [])) w of
             (Ok u, w1) \<Rightarrow>
               (Ok (), w1\<lparr>filesToPrettify := filesToPrettify w1 @ [paths_sizeLimit env]\<rparr>)
           | (r, w1) \<Rightarrow> (r, w1)))"

subsection \<open>generateMainTsConfig\<close>

definition baseMainTsconfig_references :: "path list" where
  "baseMainTsconfig_references =
     [''test/tsconfig.json'', ''support/storybook/tsconfig.json'',
      ''examples/with-next/tsconfig.json'', ''support/tsconfig.all.json'']"

definition tsconfigFileName :: string where
  "tsconfigFileName = ''tsconfig.json''"

definition excludedPackageNames :: "string list" where
  "excludedPackageNames = [''@remirror/support'']"

text \<open>
  After \<^verbatim>\<open>getAllDependencies\<close> the generator has two operations, one after the other: the
  write of the main \<^verbatim>\<open>tsconfig.json\<close> and the push of its name onto \<^verbatim>\<open>filesToPrettify\<close>.
\<close>

definition mainTsOperations :: "env \<Rightarrow> package list \<Rightarrow> operation list" where
  "mainTsOperations env packages =
     (let references = baseMainTsconfig_references @
            map (\<lambda>pkg. path_join (getRelativePathFromJson env pkg) tsconfigFileName)
              (filter (\<lambda>pkg. pkg_name pkg \<notin> set excludedPackageNames) packages)
      in [WriteFile (paths_mainTsconfig env) (MainTsconfigFile references),
          PushPrettify [paths_mainTsconfig env]])"

definition generateMainTsConfig :: "env \<Rightarrow> world \<Rightarrow> unit result \<times> world" where
  "generateMainTsConfig env w =
     (case getAllDependencies env False of
        Inl m \<Rightarrow> throw (IOError m) w
      | Inr packages \<Rightarrow> runOperations env (mainTsOperations env packages) w)"

subsection \<open>generatePackageTsConfigs\<close>

text \<open>
  The task of one package, queued through the limiter, does three things in turn: it
  resolves the \<^verbatim>\<open>tsconfig\<close> files of the package and pushes the directory of every file
  that is to be referenced onto the shared list \<^verbatim>\<open>references\<close> (one synchronous block);
  it writes the files (each write completes on its own); and, once all its writes have
  succeeded, it pushes the file names, joined by a blank, onto \<^verbatim>\<open>filesToPrettify\<close>. These
  are the operations of the task. The tasks of all packages run interleaved: the runtime
  completes the operations of all tasks in some order, which is \<open>schedule env\<close> applied
  to the operations in program order. The limiter (\<^verbatim>\<open>pLimit\<close> of the number of CPUs)
  decides how many tasks are under way at a time; of its effect only the order of
  completion is represented. When all tasks are done, \<^verbatim>\<open>references\<close> is sorted, the root
  \<^verbatim>\<open>tsconfig.json\<close> is written and its name is pushed onto \<^verbatim>\<open>filesToPrettify\<close>. When
  \<^verbatim>\<open>getTypedPackagesWithPath\<close> fails, the only operation is the rejection.
\<close>

definition taskOperations :: "env \<Rightarrow> (string \<times> path) list \<Rightarrow> package \<Rightarrow> operation list" where
  "taskOperations env dependencies pkg =
     (let tsconfigFiles = resolveTsConfigMeta env pkg dependencies
      in [PushReferences
            (map (\<lambda>tsconfig. path_relative env (baseDir env []) (path_dirname env (tc_filepath tsconfig)))
               (filter tc_shouldReference tsconfigFiles))] @
         map (\<lambda>tsconfig. WriteFile (tc_filepath tsconfig) (TsconfigFile (tc_json tsconfig)))
           tsconfigFiles @
         [PushPrettify (map tc_filepath tsconfigFiles)])"

definition packageTsOperations :: "env \<Rightarrow> package list \<Rightarrow> operation list" where
  "packageTsOperations env packages =
     (case getTypedPackagesWithPath env of
        Inl m \<Rightarrow> [Reject m]
      | Inr dependencies \<Rightarrow>
          schedule env (concat (map (taskOperations env dependencies) packages)) @
          [WriteRootTsconfig, PushPrettify [paths_rootTsconfig env]])"

definition generatePackageTsConfigs :: "env \<Rightarrow> world \<Rightarrow> unit result \<times> world" where
  "generatePackageTsConfigs env w =
     (case getAllDependencies env False of
        Inl m \<Rightarrow> throw (IOError m) w
      | Inr packages \<Rightarrow> runOperations env (packageTsOperations env packages) w)"

subsection \<open>main\<close>

text \<open>
  The experimental mode starts \<^verbatim>\<open>generatePackageTsConfigs\<close> and \<^verbatim>\<open>generateMainTsConfig\<close>
  together and waits for both with \<^verbatim>\<open>Promise.all\<close>: the operations of the two generators
  complete interleaved, in the order \<open>interleave env\<close> gives, and the first one that
  fails ends the run.
\<close>

definition generateTsConfigsTogether :: "env \<Rightarrow> world \<Rightarrow> unit result \<times> world" where
  "generateTsConfigsTogether env w =
     (case getAllDependencies env False of
        Inl m \<Rightarrow> throw (IOError m) w
      | Inr packages \<Rightarrow>
          runOperations env
            (interleave env (packageTsOperations env packages) (mainTsOperations env packages)) w)"

text \<open>
  \<^verbatim>\<open>main\<close> runs the generators of the mode the flags select and then formats the files
  named in \<^verbatim>\<open>filesToPrettify\<close>.
\<close>

definition main :: "env \<Rightarrow> cli_args \<Rightarrow> world \<Rightarrow> unit result \<times> world" where
  "main env args w =
     (case
        (if cli_size args then generateSizeLimitConfig env w
         else if cli_tsExperimentalReferences args then generateTsConfigsTogether env w
         else if cli_tsPackages args then generatePackageTsConfigs env w
         else if cli_exports args then generateExports env args w
         else generateSizeLimitConfig env w) of
        (Ok u, w1) \<Rightarrow>
          if filesToPrettify w1 = [] then (Ok (), w1)
          else formatFiles env (joinWith '' '' (filesToPrettify w1)) w1
      | (r, w1) \<Rightarrow> (r, w1))"

text \<open>
  The last statement of the script: \<^verbatim>\<open>main().catch\<close> logs a banner and the error and
  ends the process with exit code 1. A run that returns ends with exit code 0, and
  \<^verbatim>\<open>process.exit(n)\<close> inside a generator ends it with \<open>n\<close>.
\<close>

definition run_script :: "env \<Rightarrow> cli_args \<Rightarrow> world \<Rightarrow> nat \<times> world" where
  "run_script env args w =
     (case main env args w of
        (Ok u, w1) \<Rightarrow> (0, w1)
      | (Exit n, w1) \<Rightarrow> (n, w1)
      | (Throw error, w1) \<Rightarrow> (1, w1\<lparr>logged := logged w1 @ [ErrorBanner, FatalError error]\<rparr>))"

section \<open>The publish workflow\<close>

text \<open>
  \<^verbatim>\<open>.github/workflows/publish.yml\<close> as data, with the part of the semantics of the workflow
  runner its claims need. A workflow run is triggered by an event that matches the
  \<^verbatim>\<open>on\<close> section; the job runs when its \<^verbatim>\<open>if\<close> condition holds; the steps of a job run in
  order, a step is skipped once the job has failed (the default condition \<^verbatim>\<open>success()\<close>),
  and the failure of a step fails the job unless the step has \<^verbatim>\<open>continue-on-error\<close>.
\<close>

datatype conclusion =
  Success | Failure | Cancelled | Skipped | Timed_out | Neutral | Action_required | Stale

datatype activity = Requested | In_progress | Completed

record workflow_run =
  wr_workflow :: string
  wr_head_branch :: string
  wr_activity :: activity
  wr_conclusion :: "conclusion option"

datatype event = Workflow_run workflow_run | Other_event string

record workflow_run_trigger =
  on_workflows :: "string list"
  on_branches :: "string list"
  on_types :: "activity list"

definition publish_on :: workflow_run_trigger where
  "publish_on = \<lparr>on_workflows = [''ci''], on_branches = [''main''], on_types = [Completed]\<rparr>"

definition triggered :: "workflow_run_trigger \<Rightarrow> event \<Rightarrow> bool" where
  "triggered t ev =
     (case ev of
        Workflow_run r \<Rightarrow>
          wr_workflow r \<in> set (on_workflows t) \<and> wr_head_branch r \<in> set (on_branches t) \<and>
          wr_activity r \<in> set (on_types t)
      | Other_event n \<Rightarrow> False)"

text \<open>The condition of the job \<^verbatim>\<open>npm\<close>: \<^verbatim>\<open>github.event.workflow_run.conclusion == 'success'\<close>.\<close>

definition npm_if :: "event \<Rightarrow> bool" where
  "npm_if ev = (case ev of Workflow_run r \<Rightarrow> wr_conclusion r = Some Success | Other_event n \<Rightarrow> False)"

definition npm_job_runs :: "event \<Rightarrow> bool" where
  "npm_job_runs ev = (triggered publish_on ev \<and> npm_if ev)"

text \<open>
  A value of a step is a sequence of literal text and expressions. The expressions of
  this workflow are the first version of a parsed changelog (its \<^verbatim>\<open>version\<close> or its
  \<^verbatim>\<open>body\<close>), a secret, a variable of the workflow's \<^verbatim>\<open>env\<close> and expressions the runner
  evaluates itself.
\<close>

datatype expr =
    Lit string
  | Changelog_version string
  | Changelog_body string
  | Secret string
  | Env_var string
  | Runner_expr string

datatype action = Uses string | Run "string list"

record step =
  step_name :: string
  step_id :: "string option"
  step_action :: action
  step_with :: "(string \<times> expr list) list"
  continue_on_error :: bool

definition parse_changelog :: "string \<Rightarrow> string \<Rightarrow> path \<Rightarrow> step" where
  "parse_changelog package ident filePath =
     \<lparr>step_name = ''parse changelog for '' @ package, step_id = Some ident,
      step_action = Uses ''ocavue/changelog-parser-action@v1'',
      step_with = [(''filePath'', [Lit filePath])], continue_on_error = False\<rparr>"

definition create_release :: "string \<Rightarrow> string \<Rightarrow> step" where
  "create_release package ident =
     \<lparr>step_name = ''create release for '' @ package, step_id = None,
      step_action = Uses ''ncipollo/release-action@v1'',
      step_with =
        [(''commit'', [Lit ''main'']),
         (''tag'', [Lit (package @ ''@''), Changelog_version ident]),
         (''body'', [Changelog_body ident]),
         (''token'', [Secret ''GITHUB_TOKEN''])],
      continue_on_error = True\<rparr>"

definition npm_steps :: "step list" where
  "npm_steps =
     [\<lparr>step_name = ''checkout code repository'', step_id = None,
       step_action = Uses ''actions/checkout@v3'',
       step_with = [(''fetch-depth'', [Lit ''0''])], continue_on_error = False\<rparr>,
      \<lparr>step_name = ''setup caching'', step_id = None,
       step_action = Uses ''actions/cache@v3'',
       step_with =
         [(''path'', [Env_var ''PNPM_CACHE_FOLDER'']),
          (''key'', [Runner_expr ''runner.os'', Lit ''-pnpm-'',
                     Runner_expr ''hashFiles(**/pnpm-lock.yaml)''])],
       continue_on_error = False\<rparr>,
      \<lparr>step_name = ''setup node.js'', step_id = None,
       step_action = Uses ''actions/setup-node@v3'',
       step_with = [(''node-version'', [Lit ''14''])], continue_on_error = False\<rparr>,
      \<lparr>step_name = ''install and audit'', step_id = None,
       step_action = Uses ''./support/actions/pnpm'',
       step_with = [(''cache'', [Env_var ''PNPM_CACHE_FOLDER''])], continue_on_error = False\<rparr>,
      \<lparr>step_name = ''build project'', step_id = None,
       step_action = Run [''pnpm build''], step_with = [], continue_on_error = False\<rparr>,
      \<lparr>step_name = ''publish npm release'', step_id = None,
       step_action =
         Run [''echo \"//registry.npmjs.org/:_authToken=$NPM_TOKEN\" > $HOME/.npmrc'',
              ''pnpm release'', ''rm $HOME/.npmrc''],
       step_with = [], continue_on_error = False\<rparr>,
      parse_changelog ''@remirror/react'' ''changelog_remirror_react''
        ''packages/remirror__react/CHANGELOG.md'',
      create_release ''@remirror/react'' ''changelog_remirror_react'',
      parse_changelog ''@remirror/pm'' ''changelog_remirror_pm''
        ''packages/remirror__pm/CHANGELOG.md'',
      create_release ''@remirror/pm'' ''changelog_remirror_pm'',
      parse_changelog ''remirror'' ''changelog_remirror'' ''packages/remirror/CHANGELOG.md'',
      create_release ''remirror'' ''changelog_remirror'']"

text \<open>
  What a run of the job meets outside the workflow file: whether the action or script of
  a step (by its name) succeeds, the versions the changelog parser finds in a file, each
  with its \<^verbatim>\<open>version\<close> and its \<^verbatim>\<open>body\<close> and the newest first, the secrets, the workflow's
  \<^verbatim>\<open>env\<close> and the runner's own expressions.
\<close>

record runner =
  step_succeeds :: "string \<Rightarrow> bool"
  changelog :: "path \<Rightarrow> (string \<times> string) list"
  secret :: "string \<Rightarrow> string"
  env_var :: "string \<Rightarrow> string"
  runner_expr :: "string \<Rightarrow> string"

record release =
  rel_tag :: string
  rel_body :: string
  rel_commit :: string

record job_state =
  job_failed :: bool
  steps_run :: "(string \<times> bool) list"
  outputs :: "(string \<times> (string \<times> string) list) list"
  releases :: "release list"

text \<open>\<^verbatim>\<open>fromJSON(steps.ident.outputs.parsed).versions[0]\<close>; a missing value prints as the
  empty string.\<close>

definition first_version :: "job_state \<Rightarrow> string \<Rightarrow> string \<times> string" where
  "first_version st ident =
     (case map_of (outputs st) ident of
        Some (v # vs) \<Rightarrow> v
      | _ \<Rightarrow> ([], []))"

fun eval_expr :: "runner \<Rightarrow> job_state \<Rightarrow> expr \<Rightarrow> string" where
  "eval_expr r st (Lit s) = s"
| "eval_expr r st (Changelog_version ident) = fst (first_version st ident)"
| "eval_expr r st (Changelog_body ident) = snd (first_version st ident)"
| "eval_expr r st (Secret n) = secret r n"
| "eval_expr r st (Env_var n) = env_var r n"
| "eval_expr r st (Runner_expr e) = runner_expr r e"

definition step_input :: "runner \<Rightarrow> job_state \<Rightarrow> step \<Rightarrow> string \<Rightarrow> string" where
  "step_input r st s key =
     (case map_of (step_with s) key of
        None \<Rightarrow> []
      | Some es \<Rightarrow> concat (map (eval_expr r st) es))"

text \<open>
  The effect of a step that succeeds: the changelog parser sets the output \<^verbatim>\<open>parsed\<close> of
  its step, the release action creates a release from its inputs \<^verbatim>\<open>tag\<close>, \<^verbatim>\<open>body\<close> and
  \<^verbatim>\<open>commit\<close>; the other steps change nothing the releases depend on.
\<close>

definition step_effect :: "runner \<Rightarrow> step \<Rightarrow> job_state \<Rightarrow> job_state" where
  "step_effect r s st =
     (case step_action s of
        Run script \<Rightarrow> st
      | Uses a \<Rightarrow>
          if a = ''ocavue/changelog-parser-action@v1'' then
            (case step_id s of
               None \<Rightarrow> st
             | Some ident \<Rightarrow>
                 st\<lparr>outputs := obj_set (outputs st) ident (changelog r (step_input r st s ''filePath''))\<rparr>)
          else if a = ''ncipollo/release-action@v1'' then
            st\<lparr>releases := releases st @
                 [\<lparr>rel_tag = step_input r st s ''tag'', rel_body = step_input r st s ''body'',
                   rel_commit = step_input r st s ''commit''\<rparr>]\<rparr>
          else st)"

definition run_step :: "runner \<Rightarrow> step \<Rightarrow> job_state \<Rightarrow> job_state" where
  "run_step r s st =
     (if job_failed st then st
      else if step_succeeds r (step_name s) then
        (step_effect r s st)\<lparr>steps_run := steps_run st @ [(step_name s, True)]\<rparr>
      else if continue_on_error s then st\<lparr>steps_run := steps_run st @ [(step_name s, False)]\<rparr>
      else st\<lparr>steps_run := steps_run st @ [(step_name s, False)], job_failed := True\<rparr>)"

fun run_steps :: "runner \<Rightarrow> step list \<Rightarrow> job_state \<Rightarrow> job_state" where
  "run_steps r [] st = st"
| "run_steps r (s # ss) st = run_steps r ss (run_step r s st)"

definition run_npm_job :: "runner \<Rightarrow> job_state" where
  "run_npm_job r =
     run_steps r npm_steps \<lparr>job_failed = False, steps_run = [], outputs = [], releases = []\<rparr>"

definition release_step_names :: "string list" where
  "release_step_names =
     [''create release for @remirror/react'', ''create release for @remirror/pm'',
      ''create release for remirror'']"



section \<open>An example workspace\<close>

text \<open>
  A small workspace on which the functions above are evaluated: the package \<^verbatim>\<open>remirror\<close>
  with the entry point \<^verbatim>\<open>extensions\<close> and the tool directory \<^verbatim>\<open>bin\<close> below it, and the
  package \<^verbatim>\<open>@remirror/support\<close>, which has no \<^verbatim>\<open>main\<close> field. Its environment prints
  JSON in the layout of \<^verbatim>\<open>JSON.stringify(value, null, 2)\<close>, never fails, and completes the
  queued operations in program order.
\<close>

definition remirror_package :: package where
  "remirror_package =
     \<lparr>pkg_name = ''remirror'',
      pkg_main = Some ''dist/remirror.cjs.js'',
      pkg_module = Some ''dist/remirror.esm.js'',
      pkg_types = Some ''dist/remirror.cjs.d.ts'',
      pkg_browser = Some (BrowserMap
        [(''./dist/remirror.cjs.js'', BTarget ''./dist/remirror.browser.cjs.js''),
         (''./dist/remirror.esm.js'', BTarget ''./dist/remirror.browser.esm.js'')]),
      pkg_exports = None,
      pkg_dependencies = Some [(''@remirror/core'', ''^2.0.0''), (''lodash'', ''^4.17.21''),
                               (''@remirror/pm'', ''^2.0.0'')],
      pkg_peerDependencies = Some [(''react'', ''^17.0.0'')],
      pkg_sizeLimit = Some ''300 KB'',
      pkg_location = ''/repo/packages/remirror''\<rparr>"

definition remirror_extensions_json :: package_json where
  "remirror_extensions_json =
     \<lparr>pkg_name = [],
      pkg_main = Some ''dist/remirror-extensions.cjs.js'',
      pkg_module = Some ''dist/remirror-extensions.esm.js'',
      pkg_types = Some ''dist/remirror-extensions.cjs.d.ts'',
      pkg_browser = Some (BrowserMap
        [(''./dist/remirror-extensions.cjs.js'', BTarget ''./dist/remirror-extensions.browser.cjs.js''),
         (''./dist/remirror-extensions.esm.js'', BTarget ''./dist/remirror-extensions.browser.esm.js'')]),
      pkg_exports = None, pkg_dependencies = None, pkg_peerDependencies = None,
      pkg_sizeLimit = None\<rparr>"

definition remirror_bin_json :: package_json where
  "remirror_bin_json =
     \<lparr>pkg_name = [], pkg_main = Some ''cli.js'', pkg_module = None, pkg_types = None,
      pkg_browser = None, pkg_exports = None, pkg_dependencies = None,
      pkg_peerDependencies = None, pkg_sizeLimit = None\<rparr>"

definition support_package :: package where
  "support_package =
     \<lparr>pkg_name = ''@remirror/support'', pkg_main = None, pkg_module = None, pkg_types = None,
      pkg_browser = None, pkg_exports = None, pkg_dependencies = None,
      pkg_peerDependencies = None, pkg_sizeLimit = Some ''10 KB'',
      pkg_location = ''/repo/support''\<rparr>"

fun show_nat :: "nat \<Rightarrow> string" where
  "show_nat n =
     (if n < 10 then [char_of (48 + n)] else show_nat (n div 10) @ [char_of (48 + n mod 10)])"

definition show_int :: "int \<Rightarrow> string" where
  "show_int i = (if i < 0 then ''-'' @ show_nat (nat (- i)) else show_nat (nat i))"

definition quote :: "string \<Rightarrow> string" where
  "quote s =
     [CHR 0x22] @
     concat (map (\<lambda>c. if c = CHR 0x22 \<or> c = CHR 0x5C then [CHR 0x5C, c] else [c]) s) @
     [CHR 0x22]"

fun print_json :: "nat \<Rightarrow> json \<Rightarrow> string" where
  "print_json d JNull = ''null''"
| "print_json d (JBool b) = (if b then ''true'' else ''false'')"
| "print_json d (JNum n) = show_int n"
| "print_json d (JStr s) = quote s"
| "print_json d (JArr vs) =
     (if vs = [] then ''[]''
      else ''['' @ [CHR 0x0A] @
           joinWith ('','' @ [CHR 0x0A])
             (map (\<lambda>v. replicate (d + 2) CHR '' '' @ print_json (d + 2) v) vs) @
           [CHR 0x0A] @ replicate d CHR '' '' @ '']'')"
| "print_json d (JObj kvs) =
     (if kvs = [] then ''{}''
      else ''{'' @ [CHR 0x0A] @
           joinWith ('','' @ [CHR 0x0A])
             (map (\<lambda>kv. replicate (d + 2) CHR '' '' @ quote (fst kv) @ '': '' @
                          print_json (d + 2) (snd kv)) kvs) @
           [CHR 0x0A] @ replicate d CHR '' '' @ ''}'')"

definition example_tsconfigs :: "package \<Rightarrow> (string \<times> path) list \<Rightarrow> tsconfig_file list" where
  "example_tsconfigs pkg dependencies =
     [\<lparr>tc_filepath = path_join (pkg_location pkg) ''src/tsconfig.json'',
       tc_json = JObj [(''extends'', JStr ''../../../support/tsconfig.base.json'')],
       tc_shouldReference = True\<rparr>,
      \<lparr>tc_filepath = path_join (pkg_location pkg) ''tsconfig.json'',
       tc_json = JObj [(''extends'', JStr ''../../support/tsconfig.base.json'')],
       tc_shouldReference = False\<rparr>]"

definition example_env :: env where
  "example_env =
     \<lparr>getAllDependencies =
        (\<lambda>excludeSupport. Inr (if excludeSupport then [remirror_package]
                                else [remirror_package, support_package])),
      subPackages =
        (\<lambda>pkg. if pkg_name pkg = ''remirror''
                then [([], package_json.truncate remirror_package),
                      (''extensions'', remirror_extensions_json),
                      (''bin'', remirror_bin_json)]
                else []),
      stringify = print_json 0,
      writeJSON_error = (\<lambda>p. None),
      formatFiles_error = (\<lambda>files. None),
      getRelativePathFromJson = (\<lambda>pkg. drop 6 (pkg_location pkg)),
      getTypedPackagesWithPath = Inr [(''remirror'', ''/repo/packages/remirror'')],
      baseDir = (\<lambda>segments. joinWith ''/'' (''/repo'' # segments)),
      path_relative = (\<lambda>from to. drop (length from + 1) to),
      path_dirname = (\<lambda>p. joinWith ''/'' (butlast (split_path [] p))),
      cwd = ''/repo'',
      collate = (\<lambda>s. s),
      resolveTsConfigMeta = example_tsconfigs,
      schedule = (\<lambda>operations. operations),
      interleave = (\<lambda>first second. first @ second)\<rparr>"



definition example_runner :: runner where
  "example_runner =
     \<lparr>step_succeeds = (\<lambda>n. True),
      changelog =
        (\<lambda>f. if f = ''packages/remirror__react/CHANGELOG.md''
              then [(''2.0.1'', ''patch''), (''2.0.0'', ''major'')]
              else if f = ''packages/remirror__pm/CHANGELOG.md'' then [(''2.0.2'', ''fix'')]
              else [(''2.0.3'', ''notes'')]),
      secret = (\<lambda>n. []), env_var = (\<lambda>n. ''.pnpm-store''), runner_expr = (\<lambda>e. [])\<rparr>"

text \<open>Two runners in which the npm publish succeeds: in the first the three release
  actions fail, in the second the changelog parser of \<^verbatim>\<open>@remirror/react\<close> fails.\<close>

definition failing_release_runner :: runner where
  "failing_release_runner = example_runner\<lparr>step_succeeds := (\<lambda>n. n \<notin> set release_step_names)\<rparr>"


















fun taskOperationSucceeds :: "env \<Rightarrow> operation \<Rightarrow> bool" where
  "taskOperationSucceeds env (PushReferences ps) = True"
| "taskOperationSucceeds env (WriteFile p c) = (writeJSON_error env p = None)"
| "taskOperationSucceeds env (PushPrettify ps) = True"
| "taskOperationSucceeds env WriteRootTsconfig = False"
| "taskOperationSucceeds env (Reject m) = False"

text \<open>
  What a function of the script may do with errors when it handles none: it returns and
  has thrown nothing, or it throws one error of the environment, which is the last thing
  it does; its log stays as it was.
\<close>

definition unhandled :: "world \<Rightarrow> unit result \<times> world \<Rightarrow> bool" where
  "unhandled w outcome =
     (logged (snd outcome) = logged w \<and>
      (case fst outcome of
         Ok u \<Rightarrow> raised (snd outcome) = raised w
       | Throw OutputMismatch \<Rightarrow> False
       | Throw (IOError m) \<Rightarrow> raised (snd outcome) = raised w @ [IOError m]
       | Exit n \<Rightarrow> False))"
section \<open>The exports generator: check mode\<close>









section \<open>The size-limit configuration\<close>




section \<open>The publish workflow: trigger, releases and failures\<close>

text \<open>
  C9. The job \<^verbatim>\<open>npm\<close> runs exactly for a \<^verbatim>\<open>workflow_run\<close> event of the workflow \<^verbatim>\<open>ci\<close> on the
  branch \<^verbatim>\<open>main\<close> whose activity is \<^verbatim>\<open>completed\<close> and whose conclusion is \<^verbatim>\<open>success\<close>; so it
  does not run after a CI run that failed or was cancelled.
\<close>

theorem npm_job_only_after_successful_ci:
  "npm_job_runs ev \<longleftrightarrow>
     (\<exists>r. ev = Workflow_run r \<and> wr_workflow r = ''ci'' \<and> wr_head_branch r = ''main'' \<and>
          wr_activity r = Completed \<and> wr_conclusion r = Some Success)"
  by (cases ev) (auto simp: npm_job_runs_def triggered_def npm_if_def publish_on_def)

theorem npm_job_only_after_successful_ci_witness:
  "npm_job_runs (Workflow_run \<lparr>wr_workflow = ''ci'', wr_head_branch = ''main'',
       wr_activity = Completed, wr_conclusion = Some Success\<rparr>) \<and>
   \<not> npm_job_runs (Workflow_run \<lparr>wr_workflow = ''ci'', wr_head_branch = ''main'',
       wr_activity = Completed, wr_conclusion = Some Failure\<rparr>) \<and>
   \<not> npm_job_runs (Workflow_run \<lparr>wr_workflow = ''ci'', wr_head_branch = ''main'',
       wr_activity = Completed, wr_conclusion = Some Cancelled\<rparr>)"
  using npm_job_only_after_successful_ci
          [of "Workflow_run \<lparr>wr_workflow = ''ci'', wr_head_branch = ''main'',
                 wr_activity = Completed, wr_conclusion = Some Success\<rparr>"]
        npm_job_only_after_successful_ci
          [of "Workflow_run \<lparr>wr_workflow = ''ci'', wr_head_branch = ''main'',
                 wr_activity = Completed, wr_conclusion = Some Failure\<rparr>"]
        npm_job_only_after_successful_ci
          [of "Workflow_run \<lparr>wr_workflow = ''ci'', wr_head_branch = ''main'',
                 wr_activity = Completed, wr_conclusion = Some Cancelled\<rparr>"]
  by simp

text \<open>
  A step is recorded as run and successful only when the job had not failed before it, so
  the steps before it that have no \<^verbatim>\<open>continue-on-error\<close> have all succeeded.
\<close>

lemma step_effect_frame:
  "job_failed (step_effect r s st) = job_failed st \<and> steps_run (step_effect r s st) = steps_run st"
  by (simp add: step_effect_def split: action.splits option.splits)










lemma run_step_agree:
  assumes "\<not> continue_on_error s \<longrightarrow> step_succeeds r1 (step_name s) = step_succeeds r2 (step_name s)"
      and "job_failed st1 = job_failed st2"
      and "map fst (steps_run st1) = map fst (steps_run st2)"
  shows "job_failed (run_step r1 s st1) = job_failed (run_step r2 s st2) \<and>
         map fst (steps_run (run_step r1 s st1)) = map fst (steps_run (run_step r2 s st2))"
  using assms by (simp add: run_step_def step_effect_frame)

lemma run_steps_agree:
  assumes "\<forall>s\<in>set ss. \<not> continue_on_error s \<longrightarrow>
             step_succeeds r1 (step_name s) = step_succeeds r2 (step_name s)"
      and "job_failed st1 = job_failed st2"
      and "map fst (steps_run st1) = map fst (steps_run st2)"
  shows "job_failed (run_steps r1 ss st1) = job_failed (run_steps r2 ss st2) \<and>
         map fst (steps_run (run_steps r1 ss st1)) = map fst (steps_run (run_steps r2 ss st2))"
  using assms
proof (induction ss arbitrary: st1 st2)
  case Nil
  then show ?case by simp
next
  case (Cons s ss)
  have step: "job_failed (run_step r1 s st1) = job_failed (run_step r2 s st2) \<and>
         map fst (steps_run (run_step r1 s st1)) = map fst (steps_run (run_step r2 s st2))"
    using Cons.prems by (intro run_step_agree) simp_all
  have rest: "\<forall>s\<in>set ss. \<not> continue_on_error s \<longrightarrow>
             step_succeeds r1 (step_name s) = step_succeeds r2 (step_name s)"
    using Cons.prems(1) by simp
  show ?case
    using Cons.IH[OF rest] step by simp
qed

lemma npm_steps_continue:
  "\<forall>s\<in>set npm_steps. continue_on_error s \<longleftrightarrow> step_name s \<in> set release_step_names"
  by (simp add: npm_steps_def create_release_def parse_changelog_def release_step_names_def)

text \<open>
  C5. Each of the three release steps has \<^verbatim>\<open>continue-on-error\<close>, and the outcome of these
  steps has no bearing on the job: two runs that differ only in whether the release
  steps succeed run the same steps and end with the same conclusion.
\<close>

theorem release_failure_does_not_fail_job:
  assumes "\<forall>n. n \<notin> set release_step_names \<longrightarrow> step_succeeds r1 n = step_succeeds r2 n"
  shows "(\<forall>s\<in>set npm_steps. step_name s \<in> set release_step_names \<longrightarrow> continue_on_error s) \<and>
         job_failed (run_npm_job r1) = job_failed (run_npm_job r2) \<and>
         map fst (steps_run (run_npm_job r1)) = map fst (steps_run (run_npm_job r2))"
proof -
  have "\<forall>s\<in>set npm_steps. \<not> continue_on_error s \<longrightarrow>
          step_succeeds r1 (step_name s) = step_succeeds r2 (step_name s)"
    using assms npm_steps_continue by blast
  then show ?thesis
    unfolding run_npm_job_def using npm_steps_continue
    by (simp add: run_steps_agree)
qed

lemma run_example_runner:
  "job_failed (run_npm_job example_runner) = False \<and>
   map fst (steps_run (run_npm_job example_runner)) = map step_name npm_steps"
  by (simp add: run_npm_job_def npm_steps_def parse_changelog_def create_release_def
        run_step_def step_effect_frame example_runner_def)

theorem release_failure_does_not_fail_job_witness:
  "\<not> job_failed (run_npm_job failing_release_runner) \<and>
   map fst (steps_run (run_npm_job failing_release_runner)) = map step_name npm_steps \<and>
   continue_on_error (create_release ''@remirror/react'' ''changelog_remirror_react'')"
proof -
  have "\<forall>n. n \<notin> set release_step_names \<longrightarrow>
          step_succeeds example_runner n = step_succeeds failing_release_runner n"
    by (simp add: failing_release_runner_def example_runner_def)
  from release_failure_does_not_fail_job[OF this] run_example_runner
  show ?thesis by (simp add: create_release_def)
qed

section \<open>Errors and the end of the run\<close>

text \<open>
  No generator handles an error of the environment: each of them either returns having
  thrown nothing, or throws one error of \<^verbatim>\<open>getAllDependencies\<close>, \<^verbatim>\<open>getTypedPackagesWithPath\<close>,
  \<^verbatim>\<open>writeJSON\<close> or \<^verbatim>\<open>formatFiles\<close> as the last thing it does, and logs nothing. The one
  exception is the mismatch of \<^verbatim>\<open>compareOutput\<close>, which \<^verbatim>\<open>generateExports\<close> catches and logs.
\<close>

lemma unhandled_iff:
  "unhandled w (r, w') \<longleftrightarrow>
     logged w' = logged w \<and>
     ((r = Ok () \<and> raised w' = raised w) \<or>
      (\<exists>m. r = Throw (IOError m) \<and> raised w' = raised w @ [IOError m]))"
  by (cases r) (auto simp: unhandled_def split: error.splits)


lemma fold_applyOperation_rejected:
  "fold (applyOperation env) operations (references, Some e, w) = (references, Some e, w)"
  by (induction operations) simp_all

lemma applyOperation_errors:
  assumes "applyOperation env operation (references, None, w) = (references', err, w')"
  shows "logged w' = logged w \<and>
         ((err = None \<and> raised w' = raised w) \<or>
          (\<exists>m. err = Some (IOError m) \<and> raised w' = raised w @ [IOError m]))"
  using assms
  by (cases operation) (auto simp: writeJSON_def throw_def split: option.splits)

lemma fold_applyOperation_errors:
  assumes "fold (applyOperation env) operations (references, None, w) = (references', err, w')"
  shows "logged w' = logged w \<and>
         ((err = None \<and> raised w' = raised w) \<or>
          (\<exists>m. err = Some (IOError m) \<and> raised w' = raised w @ [IOError m]))"
  using assms
proof (induction operations arbitrary: references w)
  case Nil
  then show ?case by simp
next
  case (Cons operation operations)
  obtain r1 e1 w1 where step: "applyOperation env operation (references, None, w) = (r1, e1, w1)"
    by (cases "applyOperation env operation (references, None, w)") auto
  note one = applyOperation_errors[OF step]
  show ?case
  proof (cases e1)
    case None
    with Cons.prems step have "fold (applyOperation env) operations (r1, None, w1) = (references', err, w')"
      by simp
    from Cons.IH[OF this] one None show ?thesis by auto
  next
    case (Some e)
    with Cons.prems step have "(references', err, w') = (r1, Some e, w1)"
      by (simp add: fold_applyOperation_rejected)
    with one Some show ?thesis by auto
  qed
qed

lemma runOperations_unhandled: "unhandled w (runOperations env operations w)"
proof -
  obtain r e w' where f: "fold (applyOperation env) operations ([], None, w) = (r, e, w')"
    by (cases "fold (applyOperation env) operations ([], None, w)") auto
  from fold_applyOperation_errors[OF f] f show ?thesis
    by (auto simp: unhandled_iff runOperations_def)
qed

lemma throw_unhandled: "unhandled w (throw (IOError m) w)"
  by (simp add: unhandled_iff throw_def)



lemma generateMainTsConfig_unhandled: "unhandled w (generateMainTsConfig env w)"
  by (simp add: generateMainTsConfig_def throw_unhandled runOperations_unhandled split: sum.splits)







lemma run_script_Ok: "main env args w = (Ok (), w') \<Longrightarrow> run_script env args w = (0, w')"
  by (simp add: run_script_def)


lemma run_script_Exit: "main env args w = (Exit n, w') \<Longrightarrow> run_script env args w = (n, w')"
  by (simp add: run_script_def)




section \<open>The tsconfig generator and the order of completion\<close>









lemma taskOperations_schedule [simp]: "taskOperations (env\<lparr>schedule := s\<rparr>) = taskOperations env"
  by (intro ext) (simp add: taskOperations_def)

lemma taskOperationSucceeds_schedule [simp]:
  "taskOperationSucceeds (env\<lparr>schedule := s\<rparr>) = taskOperationSucceeds env"
proof
  fix operation show "taskOperationSucceeds (env\<lparr>schedule := s\<rparr>) operation = taskOperationSucceeds env operation"
    by (cases operation) simp_all
qed

lemma paths_rootTsconfig_schedule [simp]:
  "paths_rootTsconfig (env\<lparr>schedule := s\<rparr>) = paths_rootTsconfig env"
  by (simp add: paths_rootTsconfig_def)






section \<open>The entries of the exports map\<close>

text \<open>
  What holds of every entry: the keys of the generated map are sorted; \<^verbatim>\<open>default\<close> is
  \<^verbatim>\<open>import\<close>; a condition whose field is missing in the sub-package is left out, for
  \<^verbatim>\<open>import\<close>, \<^verbatim>\<open>require\<close> and \<^verbatim>\<open>types\<close>; the \<^verbatim>\<open>browser\<close> condition follows the browser path
  of the enclosing package; and the entry of the package root comes with the mappings of
  \<^verbatim>\<open>./package.json\<close> and \<^verbatim>\<open>./types/*\<close>.
\<close>

lemma packageExports_sorted: "sorted (map fst (packageExports env pkg))"
  by (simp add: packageExports_def sortKeys_def Let_def split: option.splits json.splits)

lemma map_of_obj_set: "map_of (obj_set kvs k v) = (map_of kvs)(k \<mapsto> v)"
  by (induction kvs) auto

lemma entry_default_is_import:
  "map_of (omitUndefined (exportField packageJson filepath json)) ''default'' =
   map_of (omitUndefined (exportField packageJson filepath json)) ''import''"
  by (simp add: omitUndefined_def exportField_def Let_def split: option.splits)

lemma entry_omits_absent_fields:
  "\<not> truthy (pkg_module json) \<Longrightarrow>
     map_of (omitUndefined (exportField packageJson filepath json)) ''import'' = None"
  "\<not> truthy (pkg_main json) \<Longrightarrow>
     map_of (omitUndefined (exportField packageJson filepath json)) ''require'' = None"
  "\<not> truthy (pkg_types json) \<Longrightarrow>
     map_of (omitUndefined (exportField packageJson filepath json)) ''types'' = None"
  by (simp_all add: omitUndefined_def exportField_def Let_def split: option.splits)

lemma entry_browser_of_enclosing_package:
  "map_of (omitUndefined (exportField packageJson filepath json)) ''browser'' =
     (if truthy (getBrowserPath packageJson)
      then Some (JStr (prefixRelativePath (path_join filepath (the (getBrowserPath packageJson)))))
      else None)"
  by (simp add: omitUndefined_def exportField_def Let_def split: option.splits)

lemma root_entry_mappings:
  assumes "filepath = [] \<or> filepath = ''.''"
  shows "\<exists>kvs. augmentExportsObject packageJson filepath json = JObj kvs \<and>
           map_of kvs ''./package.json'' = Some (JStr ''./package.json'') \<and>
           map_of kvs ''./types/*'' = Some (JStr ''./dist/declarations/src/*.d.ts'')"
  using assms by (auto simp: augmentExportsObject_def Let_def map_of_obj_set)

text \<open>
  C1. The generated \<^verbatim>\<open>exports\<close> of the package \<^verbatim>\<open>remirror\<close> of the example workspace, at the
  entry of its sub-package \<^verbatim>\<open>extensions\<close>: the conditions \<^verbatim>\<open>import\<close>, \<^verbatim>\<open>require\<close> and \<^verbatim>\<open>types\<close>
  are the joined fields of the sub-package, but the \<^verbatim>\<open>browser\<close> condition is the browser
  path of the enclosing package joined with the directory of the sub-package, although
  the sub-package has a browser path of its own.
\<close>

theorem exports_browser_of_enclosing_package:
  "getBrowserPath remirror_extensions_json = Some ''./dist/remirror-extensions.browser.esm.js'' \<and>
   map_of (packageExports example_env remirror_package) ''./extensions'' =
     Some (JObj
       [(''import'', JStr ''./extensions/dist/remirror-extensions.esm.js''),
        (''require'', JStr ''./extensions/dist/remirror-extensions.cjs.js''),
        (''browser'', JStr ''./extensions/dist/remirror.browser.esm.js''),
        (''types'', JStr ''./extensions/dist/remirror-extensions.cjs.d.ts''),
        (''default'', JStr ''./extensions/dist/remirror-extensions.esm.js'')])"
  by code_simp

text \<open>
  C10. The entry \<^verbatim>\<open>augmentExportsObject\<close> makes for the sub-package \<^verbatim>\<open>bin\<close> of \<^verbatim>\<open>remirror\<close>: the
  sub-package has neither a \<^verbatim>\<open>browser\<close> nor a \<^verbatim>\<open>module\<close> field, so it has no browser path,
  and yet the entry has a \<^verbatim>\<open>browser\<close> condition, taken from the enclosing package.
\<close>

theorem browser_condition_without_source_field:
  "getBrowserPath remirror_bin_json = None \<and>
   augmentExportsObject (package_json.truncate remirror_package) ''./bin'' remirror_bin_json =
     JObj [(''./bin'',
            JObj [(''require'', JStr ''./bin/cli.js''),
                  (''browser'', JStr ''./bin/dist/remirror.browser.esm.js'')])]"
  by code_simp

end
